theory Spec2Isabelle
  imports Main
begin

section \<open>Python values, exceptions, outcomes\<close>

text \<open>
  The facade of \<^verbatim>\<open>bzs/sqlfs/__init__.py\<close> is dynamically typed. The values that travel
  through it are \<^verbatim>\<open>None\<close>, booleans, numbers, strings and objects the facade never
  looks into (nodes, streams, permission specifications); the last are the parameter
  \<open>'o\<close>.
\<close>

datatype 'o pyval = PyNone | PyBool bool | PyInt int | PyStr string | PyObj 'o

text \<open>
  Exceptions are values. \<open>ValueError\<close>, \<open>KeyError\<close> and \<open>IndexError\<close> are the ones the
  facade's own list and dictionary operations raise; \<open>NotFound\<close> is the failure of the
  content store named by the specification; \<open>Failure\<close> is any other exception of a
  collaborator.
\<close>

datatype exn = ValueError | KeyError | IndexError | NotFound | Failure string

text \<open>
  A call of a facade function returns a value, raises, or waits for the lock
  (\<^verbatim>\<open>threading.Lock.acquire()\<close> blocks while the lock is held; nothing in the call
  that waits can release it).
\<close>

datatype 'a outcome = Return 'a | Raise exn | Block

section \<open>\<^verbatim>\<open>get_file_name\<close>\<close>

text \<open>
  \<^verbatim>\<open>str.split('/')\<close>: the segments between slashes, at least one of them.
\<close>

fun split_slash :: "string \<Rightarrow> string list" where
  "split_slash [] = [[]]"
| "split_slash (c # cs) =
     (if c = CHR ''/'' then [] # split_slash cs
      else (case split_slash cs of [] \<Rightarrow> [[c]] | seg # segs \<Rightarrow> (c # seg) # segs))"

text \<open>
  \<^verbatim>\<open>list.remove(x)\<close> deletes the first element equal to \<open>x\<close> and raises
  \<open>ValueError\<close> when there is none.
\<close>

definition list_remove :: "'a \<Rightarrow> 'a list \<Rightarrow> exn + 'a list" where
  "list_remove x xs = (if x \<in> set xs then Inr (remove1 x xs) else Inl ValueError)"

text \<open>
  \<^verbatim>\<open>xs[-1:][0]\<close>: the slice holds the last element, or nothing when \<open>xs\<close> is empty;
  indexing the empty slice raises \<open>IndexError\<close>.
\<close>

definition last_item :: "'a list \<Rightarrow> exn + 'a" where
  "last_item xs = (case rev xs of [] \<Rightarrow> Inl IndexError | x # _ \<Rightarrow> Inr x)"

text \<open>
  \<^verbatim>\<open>
  def get_file_name(path):
      path = path.split('/')
      path.remove('')
      path = [''] + path
      return path[-1:][0]
  \<close>
\<close>

definition get_file_name :: "string \<Rightarrow> exn + string" where
  "get_file_name path =
     (case list_remove [] (split_slash path) of
        Inl e \<Rightarrow> Inl e
      | Inr segs \<Rightarrow> last_item ([] # segs))"

section \<open>The lock, the database and the collaborators\<close>

text \<open>
  The module keeps four process-wide singletons: \<^verbatim>\<open>FilesystemLock\<close>, and the three
  collaborators \<^verbatim>\<open>Filesystem\<close>, \<^verbatim>\<open>FilesystemPermissions\<close> and the module
  \<^verbatim>\<open>file_stream\<close>. The state the facade runs on is the lock and the database; the
  database is split, as the specification splits it, into the node tree and the content
  store, so that a statement can say which part a call touches.
\<close>

record ('fs, 'cs) state =
  locked :: bool
  tree :: 'fs
  store :: 'cs

text \<open>A user is an object with at least a \<^verbatim>\<open>handle\<close>.\<close>

record user =
  handle :: string

text \<open>
  The classes \<^verbatim>\<open>Filesystem\<close>, \<^verbatim>\<open>FilesystemPermissions\<close> and \<^verbatim>\<open>FileStream\<close> are
  imported by the module and defined elsewhere, so they are parameters here: a record
  with one field per method the facade calls. A method of the tree engine reads and
  writes the database and returns a value or raises.
\<close>

type_synonym ('fs, 'cs, 'r) engine_op = "'fs \<times> 'cs \<Rightarrow> (exn + 'r) \<times> 'fs \<times> 'cs"

text \<open>An entry of a directory listing is a dictionary keyed by attribute name.\<close>

type_synonym 'o item = "string \<rightharpoonup> 'o pyval"

record ('fs, 'cs, 'o) filesystem =
  fs_create_file :: "string \<Rightarrow> string \<Rightarrow> string \<Rightarrow> 'o pyval \<Rightarrow> ('fs, 'cs, 'o pyval) engine_op"
  fs_create_directory :: "string \<Rightarrow> string \<Rightarrow> string \<Rightarrow> ('fs, 'cs, 'o pyval) engine_op"
  fs_copy_with_handle :: "string \<Rightarrow> string \<Rightarrow> 'o pyval \<Rightarrow> ('fs, 'cs, 'o pyval) engine_op"
  fs_move_with_handle :: "string \<Rightarrow> string \<Rightarrow> ('fs, 'cs, 'o pyval) engine_op"
  fs_remove :: "string \<Rightarrow> ('fs, 'cs, 'o pyval) engine_op"
  fs_rename :: "string \<Rightarrow> string \<Rightarrow> ('fs, 'cs, 'o pyval) engine_op"
  fs_change_ownership :: "string \<Rightarrow> 'o pyval \<Rightarrow> ('fs, 'cs, 'o pyval) engine_op"
  fs_change_permissions :: "string \<Rightarrow> 'o pyval \<Rightarrow> bool \<Rightarrow> ('fs, 'cs, 'o pyval) engine_op"
  fs_expunge_user_ownership :: "string \<Rightarrow> ('fs, 'cs, 'o pyval) engine_op"
  fs_list_directory :: "string \<Rightarrow> ('fs, 'cs, 'o item list) engine_op"
  fs_get_content :: "string \<Rightarrow> ('fs, 'cs, 'o pyval) engine_op"

text \<open>
  The probes of the permission engine read the tree and answer with a truth value, or
  raise. \<^verbatim>\<open>readable\<close> and \<^verbatim>\<open>writable_self\<close> are also called with the keyword
  \<^verbatim>\<open>parent=\<close> (from \<^verbatim>\<open>list_directory\<close>, on an entry's name); those calls are the
  fields \<open>perm_readable_in\<close> and \<open>perm_writable_self_in\<close>. \<^verbatim>\<open>copy_reown\<close> is the
  one method that writes the tree.
\<close>

type_synonym 'fs probe = "string \<Rightarrow> user \<Rightarrow> 'fs \<Rightarrow> exn + bool"

record ('fs, 'o) filesystem_permissions =
  perm_readable :: "'fs probe"
  perm_writable :: "'fs probe"
  perm_writable_self :: "'fs probe"
  perm_writable_all :: "'fs probe"
  perm_read_writable :: "'fs probe"
  perm_read_writable_all :: "'fs probe"
  perm_readable_in :: "'o pyval \<Rightarrow> user \<Rightarrow> string \<Rightarrow> 'fs \<Rightarrow> exn + bool"
  perm_writable_self_in :: "'o pyval \<Rightarrow> user \<Rightarrow> string \<Rightarrow> 'fs \<Rightarrow> exn + bool"
  perm_copy_reown :: "'o pyval \<Rightarrow> user \<Rightarrow> 'fs \<Rightarrow> (exn + unit) \<times> 'fs"

text \<open>
  The module \<^verbatim>\<open>file_stream\<close>: the constructor \<^verbatim>\<open>FileStream(mode, est_length, obj_oid,
  obj_data, database)\<close>, which works on the content store, and the constant
  \<^verbatim>\<open>EmptyFileStream\<close>. The facade refers to the module by its name without importing
  it; the name is taken to be bound, as it is once a sibling module has imported it.
\<close>

record ('cs, 'o) file_stream_module =
  FileStream :: "string \<Rightarrow> int \<Rightarrow> int \<Rightarrow> string \<Rightarrow> 'cs \<Rightarrow> (exn + 'o pyval) \<times> 'cs"
  EmptyFileStream :: "'o pyval"

record ('fs, 'cs, 'o) globals =
  Filesystem :: "('fs, 'cs, 'o) filesystem"
  FilesystemPermissions :: "('fs, 'o) filesystem_permissions"
  file_stream :: "('cs, 'o) file_stream_module"

type_synonym ('fs, 'cs, 'a) prog = "('fs, 'cs) state \<Rightarrow> 'a outcome \<times> ('fs, 'cs) state"

section \<open>The statements the facade is built from\<close>

text \<open>
  \<^verbatim>\<open>FilesystemLock.acquire()\<close>, then the rest of the function: the caller waits while
  the lock is held, and holds it afterwards.
\<close>

definition acquire_then :: "('fs, 'cs, 'a) prog \<Rightarrow> ('fs, 'cs, 'a) prog" where
  "acquire_then body s = (if locked s then (Block, s) else body (s\<lparr>locked := True\<rparr>))"

text \<open>\<^verbatim>\<open>FilesystemLock.release(); return v\<close>.\<close>

definition release_return :: "'a \<Rightarrow> ('fs, 'cs, 'a) prog" where
  "release_return v s = (Return v, s\<lparr>locked := False\<rparr>)"

text \<open>
  \<^verbatim>\<open>if user and not probe(path, user): FilesystemLock.release(); return denial\<close>,
  then the rest of the function. \<^verbatim>\<open>None\<close> is false, a user object is true; the probe
  is evaluated only for a user, and an exception it raises leaves the function at once.
\<close>

definition unless_denied ::
  "(user \<Rightarrow> 'fs \<Rightarrow> exn + bool) \<Rightarrow> user option \<Rightarrow> 'a \<Rightarrow> ('fs, 'cs, 'a) prog \<Rightarrow> ('fs, 'cs, 'a) prog" where
  "unless_denied probe usr denial body s =
     (case usr of
        None \<Rightarrow> body s
      | Some u \<Rightarrow>
          (case probe u (tree s) of
             Inl e \<Rightarrow> (Raise e, s)
           | Inr granted \<Rightarrow> if granted then body s else release_return denial s))"

text \<open>
  \<^verbatim>\<open>ret_result = Filesystem.method(...)\<close>, then the rest of the function with the
  result. An exception of the method leaves the function at once, with whatever the
  method had written.
\<close>

definition delegate :: "('fs, 'cs, 'r) engine_op \<Rightarrow> ('r \<Rightarrow> ('fs, 'cs, 'a) prog) \<Rightarrow> ('fs, 'cs, 'a) prog" where
  "delegate method rest s =
     (case method (tree s, store s) of
        (Inl e, t, c) \<Rightarrow> (Raise e, s\<lparr>tree := t, store := c\<rparr>)
      | (Inr ret_result, t, c) \<Rightarrow> rest ret_result (s\<lparr>tree := t, store := c\<rparr>))"

text \<open>\<^verbatim>\<open>if user: FilesystemPermissions.copy_reown(ret_result, user)\<close>, then the rest.\<close>

definition reown ::
  "('fs, 'o) filesystem_permissions \<Rightarrow> 'o pyval \<Rightarrow> user option \<Rightarrow> ('fs, 'cs, 'a) prog \<Rightarrow> ('fs, 'cs, 'a) prog" where
  "reown P ret_result usr body s =
     (case usr of
        None \<Rightarrow> body s
      | Some u \<Rightarrow>
          (case perm_copy_reown P ret_result u (tree s) of
             (Inl e, t) \<Rightarrow> (Raise e, s\<lparr>tree := t\<rparr>)
           | (Inr _, t) \<Rightarrow> body (s\<lparr>tree := t\<rparr>)))"

text \<open>\<^verbatim>\<open>user.handle if user else 'public'\<close>.\<close>

definition usr_handle :: "user option \<Rightarrow> string" where
  "usr_handle usr = (case usr of Some u \<Rightarrow> handle u | None \<Rightarrow> ''public'')"

section \<open>The exported functions\<close>

text \<open>
  Each definition follows its function statement by statement. \<open>G\<close> holds the module's
  collaborators. \<^verbatim>\<open>create_file_handle\<close>: acquire, construct the stream, release,
  return it.
\<close>

definition create_file_handle ::
  "('fs, 'cs, 'o) globals \<Rightarrow> string \<Rightarrow> int \<Rightarrow> int \<Rightarrow> string \<Rightarrow> ('fs, 'cs, 'o pyval) prog" where
  "create_file_handle G mode est_length obj_oid obj_data =
     acquire_then (\<lambda>s.
       case FileStream (file_stream G) mode est_length obj_oid obj_data (store s) of
         (Inl e, c) \<Rightarrow> (Raise e, s\<lparr>store := c\<rparr>)
       | (Inr ret_val, c) \<Rightarrow> release_return ret_val (s\<lparr>store := c\<rparr>))"

definition create_file ::
  "('fs, 'cs, 'o) globals \<Rightarrow> string \<Rightarrow> string \<Rightarrow> 'o pyval \<Rightarrow> user option \<Rightarrow> ('fs, 'cs, 'o pyval) prog" where
  "create_file G path_parent file_name content_stream usr =
     acquire_then
       (unless_denied (perm_writable (FilesystemPermissions G) path_parent) usr (PyBool False)
         (delegate (fs_create_file (Filesystem G) path_parent file_name (usr_handle usr) content_stream)
            release_return))"

definition create_directory ::
  "('fs, 'cs, 'o) globals \<Rightarrow> string \<Rightarrow> string \<Rightarrow> user option \<Rightarrow> ('fs, 'cs, 'o pyval) prog" where
  "create_directory G path_parent file_name usr =
     acquire_then
       (unless_denied (perm_writable (FilesystemPermissions G) path_parent) usr (PyBool False)
         (delegate (fs_create_directory (Filesystem G) path_parent file_name (usr_handle usr))
            release_return))"

text \<open>
  \<^verbatim>\<open>copy\<close> and \<^verbatim>\<open>move\<close> hand the engine's result to \<^verbatim>\<open>copy_reown\<close> when there is
  a user, and return \<^verbatim>\<open>True if ret_result != None else False\<close>.
\<close>

definition copy ::
  "('fs, 'cs, 'o) globals \<Rightarrow> string \<Rightarrow> string \<Rightarrow> user option \<Rightarrow> ('fs, 'cs, 'o pyval) prog" where
  "copy G source target_parent usr =
     acquire_then
       (unless_denied (perm_readable (FilesystemPermissions G) source) usr (PyBool False)
       (unless_denied (perm_writable (FilesystemPermissions G) target_parent) usr (PyBool False)
         (delegate (fs_copy_with_handle (Filesystem G) source target_parent PyNone)
            (\<lambda>ret_result. reown (FilesystemPermissions G) ret_result usr
               (release_return (PyBool (ret_result \<noteq> PyNone)))))))"

definition move ::
  "('fs, 'cs, 'o) globals \<Rightarrow> string \<Rightarrow> string \<Rightarrow> user option \<Rightarrow> ('fs, 'cs, 'o pyval) prog" where
  "move G source target_parent usr =
     acquire_then
       (unless_denied (perm_readable (FilesystemPermissions G) source) usr (PyBool False)
       (unless_denied (perm_writable_all (FilesystemPermissions G) source) usr (PyBool False)
       (unless_denied (perm_writable_self (FilesystemPermissions G) source) usr (PyBool False)
       (unless_denied (perm_writable (FilesystemPermissions G) target_parent) usr (PyBool False)
         (delegate (fs_move_with_handle (Filesystem G) source target_parent)
            (\<lambda>ret_result. reown (FilesystemPermissions G) ret_result usr
               (release_return (PyBool (ret_result \<noteq> PyNone)))))))))"

definition remove ::
  "('fs, 'cs, 'o) globals \<Rightarrow> string \<Rightarrow> user option \<Rightarrow> ('fs, 'cs, 'o pyval) prog" where
  "remove G path usr =
     acquire_then
       (unless_denied (perm_readable (FilesystemPermissions G) path) usr (PyBool False)
       (unless_denied (perm_writable_self (FilesystemPermissions G) path) usr (PyBool False)
       (unless_denied (perm_writable_all (FilesystemPermissions G) path) usr (PyBool False)
         (delegate (fs_remove (Filesystem G) path) release_return))))"

definition rename ::
  "('fs, 'cs, 'o) globals \<Rightarrow> string \<Rightarrow> string \<Rightarrow> user option \<Rightarrow> ('fs, 'cs, 'o pyval) prog" where
  "rename G path file_name usr =
     acquire_then
       (unless_denied (perm_read_writable (FilesystemPermissions G) path) usr (PyBool False)
       (unless_denied (perm_writable_self (FilesystemPermissions G) path) usr (PyBool False)
         (delegate (fs_rename (Filesystem G) path file_name) release_return)))"

definition change_ownership ::
  "('fs, 'cs, 'o) globals \<Rightarrow> string \<Rightarrow> 'o pyval \<Rightarrow> user option \<Rightarrow> ('fs, 'cs, 'o pyval) prog" where
  "change_ownership G path owner usr =
     acquire_then
       (unless_denied (perm_read_writable_all (FilesystemPermissions G) path) usr (PyBool False)
       (unless_denied (perm_writable_self (FilesystemPermissions G) path) usr (PyBool False)
         (delegate (fs_change_ownership (Filesystem G) path owner) release_return)))"

definition change_permissions ::
  "('fs, 'cs, 'o) globals \<Rightarrow> string \<Rightarrow> 'o pyval \<Rightarrow> bool \<Rightarrow> user option \<Rightarrow> ('fs, 'cs, 'o pyval) prog" where
  "change_permissions G path permissions recursive usr =
     acquire_then
       (unless_denied (perm_read_writable_all (FilesystemPermissions G) path) usr (PyBool False)
       (unless_denied (perm_writable_self (FilesystemPermissions G) path) usr (PyBool False)
         (delegate (fs_change_permissions (Filesystem G) path permissions recursive) release_return)))"

definition expunge_user_ownership ::
  "('fs, 'cs, 'o) globals \<Rightarrow> string \<Rightarrow> ('fs, 'cs, 'o pyval) prog" where
  "expunge_user_ownership G hdl =
     acquire_then (delegate (fs_expunge_user_ownership (Filesystem G) hdl) release_return)"

text \<open>
  The loop of \<^verbatim>\<open>list_directory\<close> over the engine's listing:
  \<^verbatim>\<open>
  for item in fil_ls:
      if user and not FilesystemPermissions.readable(item['file-name'], user, parent=path):
          continue
      if user:
          item['writable'] = FilesystemPermissions.writable_self(item['file-name'], user, parent=path)
      ret_result.append(item)
  \<close>
  \<^verbatim>\<open>item['file-name']\<close> raises \<open>KeyError\<close> when the key is missing, and is read only
  for a user. The assignment writes the entry's dictionary in place; the flag it writes
  depends on the entry's name, the user and the directory only, so an entry listed
  twice gets the same flag both times and a fresh dictionary per entry shows the same
  result.
\<close>

fun list_loop ::
  "('fs, 'o) filesystem_permissions \<Rightarrow> user option \<Rightarrow> string \<Rightarrow> 'fs \<Rightarrow> 'o item list \<Rightarrow> 'o item list
     \<Rightarrow> exn + 'o item list" where
  "list_loop P usr path t [] ret_result = Inr ret_result"
| "list_loop P usr path t (item # fil_ls) ret_result =
     (case usr of
        None \<Rightarrow> list_loop P usr path t fil_ls (ret_result @ [item])
      | Some u \<Rightarrow>
          (case item ''file-name'' of
             None \<Rightarrow> Inl KeyError
           | Some name \<Rightarrow>
               (case perm_readable_in P name u path t of
                  Inl e \<Rightarrow> Inl e
                | Inr readable_it \<Rightarrow>
                    if \<not> readable_it then list_loop P usr path t fil_ls ret_result
                    else
                      (case perm_writable_self_in P name u path t of
                         Inl e \<Rightarrow> Inl e
                       | Inr w \<Rightarrow>
                           list_loop P usr path t fil_ls
                             (ret_result @ [item(''writable'' \<mapsto> PyBool w)])))))"

definition list_directory ::
  "('fs, 'cs, 'o) globals \<Rightarrow> string \<Rightarrow> user option \<Rightarrow> ('fs, 'cs, 'o item list) prog" where
  "list_directory G path usr =
     acquire_then
       (delegate (fs_list_directory (Filesystem G) path)
          (\<lambda>fil_ls s.
             case list_loop (FilesystemPermissions G) usr path (tree s) fil_ls [] of
               Inl e \<Rightarrow> (Raise e, s)
             | Inr ret_result \<Rightarrow> release_return ret_result s))"

definition get_content ::
  "('fs, 'cs, 'o) globals \<Rightarrow> string \<Rightarrow> user option \<Rightarrow> ('fs, 'cs, 'o pyval) prog" where
  "get_content G path usr =
     acquire_then
       (unless_denied (perm_readable (FilesystemPermissions G) path) usr (EmptyFileStream (file_stream G))
         (delegate (fs_get_content (Filesystem G) path) release_return))"

text \<open>The three probes: \<^verbatim>\<open>False\<close> on denial, \<^verbatim>\<open>True\<close> otherwise.\<close>

definition readable ::
  "('fs, 'cs, 'o) globals \<Rightarrow> string \<Rightarrow> user option \<Rightarrow> ('fs, 'cs, 'o pyval) prog" where
  "readable G path usr =
     acquire_then
       (unless_denied (perm_readable (FilesystemPermissions G) path) usr (PyBool False)
         (release_return (PyBool True)))"

definition writable ::
  "('fs, 'cs, 'o) globals \<Rightarrow> string \<Rightarrow> user option \<Rightarrow> ('fs, 'cs, 'o pyval) prog" where
  "writable G path usr =
     acquire_then
       (unless_denied (perm_writable (FilesystemPermissions G) path) usr (PyBool False)
         (release_return (PyBool True)))"

definition writable_self ::
  "('fs, 'cs, 'o) globals \<Rightarrow> string \<Rightarrow> user option \<Rightarrow> ('fs, 'cs, 'o pyval) prog" where
  "writable_self G path usr =
     acquire_then
       (unless_denied (perm_writable_self (FilesystemPermissions G) path) usr (PyBool False)
         (release_return (PyBool True)))"

section \<open>Calls as data\<close>

text \<open>
  The fifteen exported functions that take the lock, as one type of calls, so that a
  statement can speak of every entry point. \<^verbatim>\<open>get_file_name\<close> is not among them: it
  works on its argument only and never touches the lock.
\<close>

datatype 'o call =
    CreateFileHandle string int int string
  | CreateFile string string "'o pyval" "user option"
  | CreateDirectory string string "user option"
  | Copy string string "user option"
  | Move string string "user option"
  | Remove string "user option"
  | Rename string string "user option"
  | ChangeOwnership string "'o pyval" "user option"
  | ChangePermissions string "'o pyval" bool "user option"
  | ExpungeUserOwnership string
  | ListDirectory string "user option"
  | GetContent string "user option"
  | Readable string "user option"
  | Writable string "user option"
  | WritableSelf string "user option"

datatype 'o reply = Val "'o pyval" | Listing "'o item list"

definition replying :: "('a \<Rightarrow> 'b) \<Rightarrow> 'a outcome \<times> 's \<Rightarrow> 'b outcome \<times> 's" where
  "replying f r = (map_outcome f (fst r), snd r)"

fun facade :: "('fs, 'cs, 'o) globals \<Rightarrow> 'o call \<Rightarrow> ('fs, 'cs, 'o reply) prog" where
  "facade G (CreateFileHandle mode est_length obj_oid obj_data) s =
     replying Val (create_file_handle G mode est_length obj_oid obj_data s)"
| "facade G (CreateFile path_parent file_name content_stream usr) s =
     replying Val (create_file G path_parent file_name content_stream usr s)"
| "facade G (CreateDirectory path_parent file_name usr) s =
     replying Val (create_directory G path_parent file_name usr s)"
| "facade G (Copy source target_parent usr) s = replying Val (copy G source target_parent usr s)"
| "facade G (Move source target_parent usr) s = replying Val (move G source target_parent usr s)"
| "facade G (Remove path usr) s = replying Val (remove G path usr s)"
| "facade G (Rename path file_name usr) s = replying Val (rename G path file_name usr s)"
| "facade G (ChangeOwnership path owner usr) s = replying Val (change_ownership G path owner usr s)"
| "facade G (ChangePermissions path permissions recursive usr) s =
     replying Val (change_permissions G path permissions recursive usr s)"
| "facade G (ExpungeUserOwnership hdl) s = replying Val (expunge_user_ownership G hdl s)"
| "facade G (ListDirectory path usr) s = replying Listing (list_directory G path usr s)"
| "facade G (GetContent path usr) s = replying Val (get_content G path usr s)"
| "facade G (Readable path usr) s = replying Val (readable G path usr s)"
| "facade G (Writable path usr) s = replying Val (writable G path usr s)"
| "facade G (WritableSelf path usr) s = replying Val (writable_self G path usr s)"

text \<open>The user argument of a call; \<open>None\<close> for the two functions that take no user.\<close>

fun call_user :: "'o call \<Rightarrow> user option option" where
  "call_user (CreateFileHandle _ _ _ _) = None"
| "call_user (CreateFile _ _ _ usr) = Some usr"
| "call_user (CreateDirectory _ _ usr) = Some usr"
| "call_user (Copy _ _ usr) = Some usr"
| "call_user (Move _ _ usr) = Some usr"
| "call_user (Remove _ usr) = Some usr"
| "call_user (Rename _ _ usr) = Some usr"
| "call_user (ChangeOwnership _ _ usr) = Some usr"
| "call_user (ChangePermissions _ _ _ usr) = Some usr"
| "call_user (ExpungeUserOwnership _) = None"
| "call_user (ListDirectory _ usr) = Some usr"
| "call_user (GetContent _ usr) = Some usr"
| "call_user (Readable _ usr) = Some usr"
| "call_user (Writable _ usr) = Some usr"
| "call_user (WritableSelf _ usr) = Some usr"

text \<open>
  The permission checks each function makes for a user, in the order of its
  \<^verbatim>\<open>if user and not ...\<close> statements.
\<close>

fun permission_checks ::
  "('fs, 'o) filesystem_permissions \<Rightarrow> 'o call \<Rightarrow> (user \<Rightarrow> 'fs \<Rightarrow> exn + bool) list" where
  "permission_checks P (CreateFileHandle _ _ _ _) = []"
| "permission_checks P (CreateFile path_parent _ _ _) = [perm_writable P path_parent]"
| "permission_checks P (CreateDirectory path_parent _ _) = [perm_writable P path_parent]"
| "permission_checks P (Copy source target_parent _) =
     [perm_readable P source, perm_writable P target_parent]"
| "permission_checks P (Move source target_parent _) =
     [perm_readable P source, perm_writable_all P source, perm_writable_self P source,
      perm_writable P target_parent]"
| "permission_checks P (Remove path _) =
     [perm_readable P path, perm_writable_self P path, perm_writable_all P path]"
| "permission_checks P (Rename path _ _) = [perm_read_writable P path, perm_writable_self P path]"
| "permission_checks P (ChangeOwnership path _ _) =
     [perm_read_writable_all P path, perm_writable_self P path]"
| "permission_checks P (ChangePermissions path _ _ _) =
     [perm_read_writable_all P path, perm_writable_self P path]"
| "permission_checks P (ExpungeUserOwnership _) = []"
| "permission_checks P (ListDirectory _ _) = []"
| "permission_checks P (GetContent path _) = [perm_readable P path]"
| "permission_checks P (Readable path _) = [perm_readable P path]"
| "permission_checks P (Writable path _) = [perm_writable P path]"
| "permission_checks P (WritableSelf path _) = [perm_writable_self P path]"

text \<open>
  What a run of such checks comes to: \<open>Inr False\<close> at the first probe that denies,
  the exception of the first probe that raises, \<open>Inr True\<close> when every probe grants.
  A probe after the deciding one is not evaluated.
\<close>

fun verdict :: "(exn + bool) list \<Rightarrow> exn + bool" where
  "verdict [] = Inr True"
| "verdict (Inl e # rs) = Inl e"
| "verdict (Inr granted # rs) = (if granted then verdict rs else Inr False)"

text \<open>The eight functions that change the tree.\<close>

fun mutating :: "'o call \<Rightarrow> bool" where
  "mutating (CreateFile _ _ _ _) = True"
| "mutating (CreateDirectory _ _ _) = True"
| "mutating (Copy _ _ _) = True"
| "mutating (Move _ _ _) = True"
| "mutating (Remove _ _) = True"
| "mutating (Rename _ _ _) = True"
| "mutating (ChangeOwnership _ _ _) = True"
| "mutating (ChangePermissions _ _ _ _) = True"
| "mutating _ = False"

section \<open>What the specification says of the collaborators\<close>

text \<open>
  Modelled from the spec: the module \<^verbatim>\<open>file_stream\<close> (the class \<^verbatim>\<open>FileStream\<close> and the
  constant \<^verbatim>\<open>EmptyFileStream\<close>) is not under src/. Section 4.1, \<^verbatim>\<open>open(mode,
  estimated_length, object_id, initial_bytes) -> FileStream\<close>: "allocates a stream. In
  write mode with no existing object, reserves space; in read mode, object_id must
  reference an existing, committed object or the store fails with NotFound." The
  content store maps an object identifier to its bytes; a stream is a handle that
  carries what it was opened with.
\<close>

datatype pyobj = Stream string int int string | EmptyStream

definition spec_FileStream ::
  "string \<Rightarrow> int \<Rightarrow> int \<Rightarrow> string \<Rightarrow> (int \<rightharpoonup> string) \<Rightarrow> (exn + pyobj pyval) \<times> (int \<rightharpoonup> string)" where
  "spec_FileStream mode est_length obj_oid obj_data objects =
     (if mode = ''read'' \<and> objects obj_oid = None then (Inl NotFound, objects)
      else (Inr (PyObj (Stream mode est_length obj_oid obj_data)), objects))"

definition spec_file_stream :: "(int \<rightharpoonup> string, pyobj) file_stream_module" where
  "spec_file_stream = \<lparr>FileStream = spec_FileStream, EmptyFileStream = PyObj EmptyStream\<rparr>"

text \<open>
  Modelled from the spec: the class \<^verbatim>\<open>FilesystemPermissions\<close> is not under src/.
  Section 4.2: "writable_all(node, user): true iff writable_self holds for node and for
  every descendant of node, recursively." The probe \<^verbatim>\<open>writable_self\<close> and the
  descendants of a path in a tree are parameters.
\<close>

definition spec_writable_all :: "'fs probe \<Rightarrow> (string \<Rightarrow> 'fs \<Rightarrow> string list) \<Rightarrow> 'fs probe" where
  "spec_writable_all wself descendants path u t =
     verdict (map (\<lambda>p. wself p u t) (path # descendants path t))"

section \<open>Collaborators to run the facade on\<close>

text \<open>
  The results below hold for every tree engine and every permission engine. To
  evaluate them on explicit inputs, two plain collaborators are fixed here. The first
  is a tree engine whose tree is the list of the calls it has received, each with its
  string arguments; it lists a given directory content.
\<close>

type_synonym trace = "(string \<times> string list) list"

definition recording_filesystem :: "'o item list \<Rightarrow> (trace, 'cs, 'o) filesystem" where
  "recording_filesystem listing = \<lparr>
     fs_create_file = (\<lambda>path_parent file_name owner content_stream (t, c).
       (Inr (PyStr file_name), t @ [(''create_file'', [path_parent, file_name, owner])], c)),
     fs_create_directory = (\<lambda>path_parent file_name owner (t, c).
       (Inr (PyStr file_name), t @ [(''create_directory'', [path_parent, file_name, owner])], c)),
     fs_copy_with_handle = (\<lambda>source target_parent new_owner (t, c).
       (Inr (PyStr source), t @ [(''copy_with_handle'', [source, target_parent])], c)),
     fs_move_with_handle = (\<lambda>source target_parent (t, c).
       (Inr (PyStr source), t @ [(''move_with_handle'', [source, target_parent])], c)),
     fs_remove = (\<lambda>path (t, c). (Inr (PyBool True), t @ [(''remove'', [path])], c)),
     fs_rename = (\<lambda>path file_name (t, c). (Inr (PyBool True), t @ [(''rename'', [path, file_name])], c)),
     fs_change_ownership = (\<lambda>path owner (t, c).
       (Inr (PyBool True), t @ [(''change_ownership'', [path])], c)),
     fs_change_permissions = (\<lambda>path permissions recursive (t, c).
       (Inr (PyBool True), t @ [(''change_permissions'', [path])], c)),
     fs_expunge_user_ownership = (\<lambda>hdl (t, c).
       (Inr (PyBool True), t @ [(''expunge_user_ownership'', [hdl])], c)),
     fs_list_directory = (\<lambda>path (t, c). (Inr listing, t, c)),
     fs_get_content = (\<lambda>path (t, c). (Inr (PyStr path), t, c))\<rparr>"

text \<open>
  The second is a permission engine that reads its answers from a table of denials,
  each a probe's name, a path and a user's handle; everything else is granted.
  \<^verbatim>\<open>copy_reown\<close> is recorded in the trace.
\<close>

definition table_probe :: "(string \<times> string \<times> string) list \<Rightarrow> string \<Rightarrow> 'fs probe" where
  "table_probe denials probe_name path u t = Inr ((probe_name, path, handle u) \<notin> set denials)"

definition table_probe_in ::
  "(string \<times> string \<times> string) list \<Rightarrow> string \<Rightarrow> 'o pyval \<Rightarrow> user \<Rightarrow> string \<Rightarrow> 'fs \<Rightarrow> exn + bool" where
  "table_probe_in denials probe_name name u parent t =
     (case name of
        PyStr n \<Rightarrow> Inr ((probe_name, parent @ ''/'' @ n, handle u) \<notin> set denials)
      | _ \<Rightarrow> Inl (Failure ''name''))"

definition table_permissions :: "(string \<times> string \<times> string) list \<Rightarrow> (trace, 'o) filesystem_permissions" where
  "table_permissions denials = \<lparr>
     perm_readable = table_probe denials ''readable'',
     perm_writable = table_probe denials ''writable'',
     perm_writable_self = table_probe denials ''writable_self'',
     perm_writable_all = table_probe denials ''writable_all'',
     perm_read_writable = table_probe denials ''read_writable'',
     perm_read_writable_all = table_probe denials ''read_writable_all'',
     perm_readable_in = table_probe_in denials ''readable'',
     perm_writable_self_in = table_probe_in denials ''writable_self'',
     perm_copy_reown = (\<lambda>ret_result u t. (Inr (), t @ [(''copy_reown'', [handle u])]))\<rparr>"

definition sample_globals ::
  "pyobj item list \<Rightarrow> (string \<times> string \<times> string) list \<Rightarrow> (trace, int \<rightharpoonup> string, pyobj) globals" where
  "sample_globals listing denials = \<lparr>
     Filesystem = recording_filesystem listing,
     FilesystemPermissions = table_permissions denials,
     file_stream = spec_file_stream\<rparr>"

text \<open>The state before any call: the lock free, no call recorded, no object stored.\<close>

definition idle :: "(trace, int \<rightharpoonup> string) state" where
  "idle = \<lparr>locked = False, tree = [], store = Map.empty\<rparr>"

definition alice :: user where
  "alice = \<lparr>handle = ''alice''\<rparr>"

section \<open>The claims' own words, as definitions\<close>

text \<open>
  The privileged caller of the specification: "passing no user means the system caller
  and bypasses all permission checks". Under the lock the tree engine's method is
  called with the arguments as given, no probe is asked, and the lock is released when
  the method returns. The permission engine is not an argument.
\<close>

definition under_lock :: "('fs, 'cs, 'r) engine_op \<Rightarrow> ('r \<Rightarrow> 'a) \<Rightarrow> ('fs, 'cs, 'a) prog" where
  "under_lock method f s =
     (if locked s then (Block, s)
      else (case method (tree s, store s) of
              (Inl e, t, c) \<Rightarrow> (Raise e, \<lparr>locked = True, tree = t, store = c\<rparr>)
            | (Inr r, t, c) \<Rightarrow> (Return (f r), \<lparr>locked = False, tree = t, store = c\<rparr>)))"

fun privileged ::
  "('fs, 'cs, 'o) filesystem \<Rightarrow> ('cs, 'o) file_stream_module \<Rightarrow> 'o call \<Rightarrow> ('fs, 'cs, 'o reply) prog" where
  "privileged E FS (CreateFileHandle mode est_length obj_oid obj_data) =
     under_lock (\<lambda>(t, c). case FileStream FS mode est_length obj_oid obj_data c of (r, c') \<Rightarrow> (r, t, c')) Val"
| "privileged E FS (CreateFile path_parent file_name content_stream _) =
     under_lock (fs_create_file E path_parent file_name ''public'' content_stream) Val"
| "privileged E FS (CreateDirectory path_parent file_name _) =
     under_lock (fs_create_directory E path_parent file_name ''public'') Val"
| "privileged E FS (Copy source target_parent _) =
     under_lock (fs_copy_with_handle E source target_parent PyNone) (\<lambda>r. Val (PyBool (r \<noteq> PyNone)))"
| "privileged E FS (Move source target_parent _) =
     under_lock (fs_move_with_handle E source target_parent) (\<lambda>r. Val (PyBool (r \<noteq> PyNone)))"
| "privileged E FS (Remove path _) = under_lock (fs_remove E path) Val"
| "privileged E FS (Rename path file_name _) = under_lock (fs_rename E path file_name) Val"
| "privileged E FS (ChangeOwnership path owner _) = under_lock (fs_change_ownership E path owner) Val"
| "privileged E FS (ChangePermissions path permissions recursive _) =
     under_lock (fs_change_permissions E path permissions recursive) Val"
| "privileged E FS (ExpungeUserOwnership hdl) = under_lock (fs_expunge_user_ownership E hdl) Val"
| "privileged E FS (ListDirectory path _) = under_lock (fs_list_directory E path) Listing"
| "privileged E FS (GetContent path _) = under_lock (fs_get_content E path) Val"
| "privileged E FS (Readable path _) = under_lock (\<lambda>w. (Inr (PyBool True), w)) Val"
| "privileged E FS (Writable path _) = under_lock (\<lambda>w. (Inr (PyBool True), w)) Val"
| "privileged E FS (WritableSelf path _) = under_lock (\<lambda>w. (Inr (PyBool True), w)) Val"

text \<open>
  The listing of the specification for a user: "entries the user cannot read are
  silently omitted; a writable flag is attached per visible entry", the flag being what
  \<^verbatim>\<open>writable_self\<close> answers for the entry.
\<close>

definition granted :: "exn + bool \<Rightarrow> bool" where
  "granted r = (r = Inr True)"



text \<open>
  A set of collaborators whose \<^verbatim>\<open>writable_all\<close> is the one of the specification, built
  on its own \<^verbatim>\<open>writable_self\<close>; and a directory \<^verbatim>\<open>/d\<close> with two entries to run it on.
\<close>

definition with_spec_writable_all ::
  "('fs, 'cs, 'o) globals \<Rightarrow> (string \<Rightarrow> 'fs \<Rightarrow> string list) \<Rightarrow> ('fs, 'cs, 'o) globals" where
  "with_spec_writable_all G descendants =
     G\<lparr>FilesystemPermissions := (FilesystemPermissions G)
         \<lparr>perm_writable_all :=
            spec_writable_all (perm_writable_self (FilesystemPermissions G)) descendants\<rparr>\<rparr>"

definition sample_descendants :: "string \<Rightarrow> trace \<Rightarrow> string list" where
  "sample_descendants path t = (if path = ''/d'' then [''/d/x'', ''/d/y''] else [])"


section \<open>Lemmas on the statements\<close>

lemmas facade_defs = create_file_handle_def create_file_def create_directory_def copy_def move_def
  remove_def rename_def change_ownership_def change_permissions_def expunge_user_ownership_def
  list_directory_def get_content_def readable_def writable_def writable_self_def

lemmas stmt_defs = acquire_then_def unless_denied_def release_return_def delegate_def reown_def

lemmas sample_defs = sample_globals_def recording_filesystem_def table_permissions_def
  table_probe_def table_probe_in_def spec_file_stream_def spec_FileStream_def idle_def alice_def

lemma idle_free: "\<not> locked idle"
  by (simp add: idle_def)

lemma replying_Return:
  "replying f r = (Return v, s') \<longleftrightarrow> (\<exists>a. r = (Return a, s') \<and> v = f a)"
  by (cases r; cases "fst r") (auto simp: replying_def)

lemma split_slash_not_Nil: "split_slash p \<noteq> []"
  by (induction p) (auto split: list.splits)

lemma replying_Raise:
  "replying f r = (Raise e, s') \<longleftrightarrow> r = (Raise e, s')"
  by (cases r; cases "fst r") (auto simp: replying_def)

text \<open>For the system caller the loop keeps every entry as it is.\<close>

lemma list_loop_None: "list_loop P None path t items acc = Inr (acc @ items)"
  by (induction items arbitrary: acc) auto


text \<open>A run of probes that all answer, one of them with a denial, comes to a denial.\<close>

lemma verdict_denied:
  "\<forall>x\<in>set xs. \<exists>b. f x = Inr b \<Longrightarrow> \<exists>x\<in>set xs. f x = Inr False \<Longrightarrow> verdict (map f xs) = Inr False"
proof (induction xs)
  case Nil
  then show ?case by simp
next
  case (Cons a xs)
  then obtain b where b: "f a = Inr b" by auto
  show ?case
  proof (cases b)
    case False
    with b show ?thesis by simp
  next
    case True
    with b Cons.prems have "\<exists>x\<in>set xs. f x = Inr False" by auto
    moreover from Cons.prems have "\<forall>x\<in>set xs. \<exists>b. f x = Inr b" by simp
    ultimately have "verdict (map f xs) = Inr False" by (rule Cons.IH[rotated])
    with b True show ?thesis by simp
  qed
qed

section \<open>C1: \<^verbatim>\<open>create_file_handle\<close>\<close>

text \<open>
  C1, as stated: every call of \<^verbatim>\<open>create_file_handle\<close> succeeds and neither reads nor
  writes the tree. With the constructor of the specification the call with the
  function's own default arguments (\<^verbatim>\<open>mode='read'\<close>, \<^verbatim>\<open>est_length=1024**8\<close>,
  \<^verbatim>\<open>obj_oid=0\<close>, \<^verbatim>\<open>obj_data=b''\<close>) on an empty content store does not return a stream:
  object 0 does not exist, the store fails with \<open>NotFound\<close>, and the facade has no
  handler.
\<close>

theorem create_file_handle_read_unknown_object_raises:
  "create_file_handle (sample_globals [] []) ''read'' (1024 ^ 8) 0 [] idle
     = (Raise NotFound, idle\<lparr>locked := True\<rparr>)"
  by (simp add: create_file_handle_def stmt_defs sample_defs)

text \<open>
  C1, amended: \<^verbatim>\<open>create_file_handle\<close> adds no failure of its own and never touches the
  tree. Whenever the constructor \<^verbatim>\<open>FileStream\<close> returns a stream, the call returns that
  stream, with the lock free again and the tree as it was; in every case the tree after
  the call is the tree before it, and the outcome does not depend on the tree.
\<close>

theorem create_file_handle_returns_constructed_stream:
  assumes "\<not> locked s"
  shows "(\<forall>st c. FileStream (file_stream G) mode est_length obj_oid obj_data (store s) = (Inr st, c)
            \<longrightarrow> create_file_handle G mode est_length obj_oid obj_data s = (Return st, s\<lparr>store := c\<rparr>))
       \<and> tree (snd (create_file_handle G mode est_length obj_oid obj_data s)) = tree s
       \<and> fst (create_file_handle G mode est_length obj_oid obj_data (s\<lparr>tree := t'\<rparr>))
           = fst (create_file_handle G mode est_length obj_oid obj_data s)"
  using assms
  by (auto simp: create_file_handle_def acquire_then_def release_return_def
           split: prod.splits sum.splits)

theorem create_file_handle_write_witness:
  "create_file_handle (sample_globals [] []) ''write'' 1024 0 ''abc'' idle
     = (Return (PyObj (Stream ''write'' 1024 0 ''abc'')), idle)
   \<and> tree (snd (create_file_handle (sample_globals [] []) ''write'' 1024 0 ''abc'' idle)) = []"
proof -
  have built: "FileStream (file_stream (sample_globals [] [])) ''write'' 1024 0 ''abc'' (store idle)
      = (Inr (PyObj (Stream ''write'' 1024 0 ''abc'')), Map.empty)"
    by (simp add: sample_defs)
  from create_file_handle_returns_constructed_stream
         [OF idle_free, of "sample_globals [] []" "''write''" 1024 0 "''abc''"] built
  show ?thesis
    by (simp add: idle_def)
qed

section \<open>C2: the lock\<close>

text \<open>
  C2. The claim: every entry point acquires the lock before it evaluates permissions
  and before it delegates, and releases it on every exit path, success, denial or
  failure, so that after any facade call finishes, normally or with an exception, the
  lock is free again. Each \<^verbatim>\<open>release()\<close> of the module stands before a \<^verbatim>\<open>return\<close>, and no
  function has a handler: \<^verbatim>\<open>create_file_handle()\<close>, called with its default arguments
  on a content store that holds no object 0, ends with \<open>NotFound\<close> and the lock held.
\<close>

theorem lock_held_after_exception:
  "facade (sample_globals [] []) (CreateFileHandle ''read'' (1024 ^ 8) 0 []) idle
     = (Raise NotFound, idle\<lparr>locked := True\<rparr>)
   \<and> locked (snd (facade (sample_globals [] []) (CreateFileHandle ''read'' (1024 ^ 8) 0 []) idle))"
  by (simp add: replying_def create_file_handle_def stmt_defs sample_defs)

text \<open>
  The discipline of the lock at every entry point, for all collaborators. While the
  lock is held the call waits, and nothing has been evaluated or changed. When the call
  returns, on success or on denial, the lock is free. When the call ends with an
  exception, the lock is held: a probe or a method of the tree engine raised while the
  caller held the lock (so the lock was acquired before either was asked), and nothing
  released it. After such a call every other call waits for ever.
\<close>

lemma lock_discipline:
  "(locked s \<longrightarrow> facade G c s = (Block, s))
   \<and> (\<not> locked s \<longrightarrow> (\<forall>v s'. facade G c s = (Return v, s') \<longrightarrow> \<not> locked s'))
   \<and> (\<not> locked s \<longrightarrow> (\<forall>e s'. facade G c s = (Raise e, s') \<longrightarrow> locked s'))"
proof (intro conjI impI allI)
  assume "locked s"
  then show "facade G c s = (Block, s)"
    by (cases c) (simp_all add: facade_defs acquire_then_def replying_def)
next
  fix v s'
  assume "\<not> locked s" and "facade G c s = (Return v, s')"
  then show "\<not> locked s'"
    by (cases c)
       (auto simp: replying_Return facade_defs stmt_defs usr_handle_def
             split: prod.splits sum.splits option.splits if_splits)
next
  fix e s'
  assume "\<not> locked s" and "facade G c s = (Raise e, s')"
  then show "locked s'"
    by (cases c)
       (auto simp: replying_Raise facade_defs stmt_defs usr_handle_def
             split: prod.splits sum.splits option.splits if_splits)
qed

text \<open>
  The same at explicit inputs: a call on a held lock waits; a call that returns leaves
  the lock free; and after the failed \<^verbatim>\<open>create_file_handle()\<close> a probe waits.
\<close>

lemma lock_discipline_sample:
  "facade (sample_globals [] []) (Readable ''/d'' (Some alice)) (idle\<lparr>locked := True\<rparr>)
     = (Block, idle\<lparr>locked := True\<rparr>)
   \<and> facade (sample_globals [] []) (CreateFile ''/d'' ''f'' PyNone (Some alice)) idle
     = (Return (Val (PyStr ''f'')), idle\<lparr>tree := [(''create_file'', [''/d'', ''f'', ''alice''])]\<rparr>)
   \<and> \<not> locked (idle\<lparr>tree := [(''create_file'', [''/d'', ''f'', ''alice''])]\<rparr>)
   \<and> facade (sample_globals [] []) (Readable ''/d'' None)
         (snd (facade (sample_globals [] []) (CreateFileHandle ''read'' (1024 ^ 8) 0 []) idle))
     = (Block, idle\<lparr>locked := True\<rparr>)"
proof -
  let ?G = "sample_globals [] [] :: (trace, int \<rightharpoonup> string, pyobj) globals"
  have held: "locked (idle\<lparr>locked := True\<rparr>)"
    by simp
  have returned: "facade ?G (CreateFile ''/d'' ''f'' PyNone (Some alice)) idle
      = (Return (Val (PyStr ''f'')), idle\<lparr>tree := [(''create_file'', [''/d'', ''f'', ''alice''])]\<rparr>)"
    by (simp add: replying_def create_file_def stmt_defs usr_handle_def sample_defs)
  have raised: "snd (facade ?G (CreateFileHandle ''read'' (1024 ^ 8) 0 []) idle) = idle\<lparr>locked := True\<rparr>"
    by (simp add: replying_def create_file_handle_def stmt_defs sample_defs)
  from lock_discipline [of "idle\<lparr>locked := True\<rparr>" ?G "Readable ''/d'' (Some alice)"] held
  have "facade ?G (Readable ''/d'' (Some alice)) (idle\<lparr>locked := True\<rparr>) = (Block, idle\<lparr>locked := True\<rparr>)"
    by blast
  moreover
  from lock_discipline [of idle ?G "CreateFile ''/d'' ''f'' PyNone (Some alice)"] idle_free returned
  have "\<not> locked (idle\<lparr>tree := [(''create_file'', [''/d'', ''f'', ''alice''])]\<rparr>)"
    by blast
  moreover
  from lock_discipline [of "idle\<lparr>locked := True\<rparr>" ?G "Readable ''/d'' None"] held
  have "facade ?G (Readable ''/d'' None) (idle\<lparr>locked := True\<rparr>) = (Block, idle\<lparr>locked := True\<rparr>)"
    by blast
  ultimately show ?thesis
    using returned raised by simp
qed

section \<open>C3: \<^verbatim>\<open>get_content\<close> on denial\<close>

text \<open>
  C3: for every path and every user who is denied read access to it, \<^verbatim>\<open>get_content\<close>
  returns the constant \<^verbatim>\<open>EmptyFileStream\<close> and does not raise. The lock is free again
  and nothing has changed.
\<close>

theorem get_content_denied_gives_empty_stream:
  "\<not> locked s \<Longrightarrow> perm_readable (FilesystemPermissions G) path u (tree s) = Inr False \<Longrightarrow>
   get_content G path (Some u) s = (Return (EmptyFileStream (file_stream G)), s)"
  by (simp add: get_content_def acquire_then_def unless_denied_def release_return_def)

theorem get_content_denied_witness:
  "get_content (sample_globals [] [(''readable'', ''/secret'', ''alice'')]) ''/secret'' (Some alice) idle
     = (Return (PyObj EmptyStream), idle)"
proof -
  let ?G = "sample_globals [] [(''readable'', ''/secret'', ''alice'')]
              :: (trace, int \<rightharpoonup> string, pyobj) globals"
  have denied: "perm_readable (FilesystemPermissions ?G) ''/secret'' alice (tree idle) = Inr False"
    by (simp add: sample_defs)
  from get_content_denied_gives_empty_stream [OF idle_free denied]
  show ?thesis
    by (simp add: sample_defs)
qed

section \<open>C4: a denied mutation changes nothing\<close>

text \<open>
  C4: for each of the eight mutating functions and every user, when the function's
  permission checks come to a denial the call returns \<^verbatim>\<open>False\<close> and the state after
  the call is the state before it: the tree and the content store are untouched and the
  lock is free. The result does not mention the tree engine, so no method of it has
  been called.
\<close>

theorem denied_mutation_changes_nothing:
  assumes "mutating c" and "call_user c = Some (Some u)" and "\<not> locked s"
    and "verdict (map (\<lambda>probe. probe u (tree s)) (permission_checks (FilesystemPermissions G) c))
           = Inr False"
  shows "facade G c s = (Return (Val (PyBool False)), s)"
  using assms
  by (cases c)
     (auto simp: replying_def create_file_def create_directory_def copy_def move_def remove_def
        rename_def change_ownership_def change_permissions_def acquire_then_def unless_denied_def
        release_return_def
        split: sum.splits if_splits)

theorem denied_mutation_witness:
  "facade (sample_globals [] [(''writable_self'', ''/d'', ''alice'')])
       (ChangePermissions ''/d'' PyNone True (Some alice)) idle
     = (Return (Val (PyBool False)), idle)"
proof -
  let ?G = "sample_globals [] [(''writable_self'', ''/d'', ''alice'')]
              :: (trace, int \<rightharpoonup> string, pyobj) globals"
  let ?c = "ChangePermissions ''/d'' PyNone True (Some alice) :: pyobj call"
  have m: "mutating ?c" and u: "call_user ?c = Some (Some alice)"
    by simp_all
  have denied: "verdict (map (\<lambda>probe. probe alice (tree idle))
      (permission_checks (FilesystemPermissions ?G) ?c)) = Inr False"
    by (simp add: sample_defs)
  from denied_mutation_changes_nothing [OF m u idle_free denied]
  show ?thesis .
qed

section \<open>C5: \<^verbatim>\<open>remove\<close>\<close>

text \<open>
  C5: for every path and every user, \<^verbatim>\<open>remove\<close> returns \<^verbatim>\<open>False\<close> and leaves the state as
  it was unless the user has read access to the path, \<^verbatim>\<open>writable_self\<close> on it and
  \<^verbatim>\<open>writable_all\<close> on it (first part: the three checks come to a denial). In particular,
  with \<^verbatim>\<open>writable_all\<close> as the specification defines it, a single descendant that denies
  \<^verbatim>\<open>writable_self\<close> makes the whole call fail, whatever the path itself and the other
  descendants grant (second part).
\<close>

theorem remove_gated:
  assumes "\<not> locked s"
  shows "(verdict [perm_readable (FilesystemPermissions G) path u (tree s),
                   perm_writable_self (FilesystemPermissions G) path u (tree s),
                   perm_writable_all (FilesystemPermissions G) path u (tree s)] = Inr False
            \<longrightarrow> remove G path (Some u) s = (Return (PyBool False), s))
       \<and> (perm_writable_all (FilesystemPermissions G)
              = spec_writable_all (perm_writable_self (FilesystemPermissions G)) descendants
            \<and> (\<exists>r. perm_readable (FilesystemPermissions G) path u (tree s) = Inr r)
            \<and> (\<forall>p\<in>set (path # descendants path (tree s)).
                  \<exists>b. perm_writable_self (FilesystemPermissions G) p u (tree s) = Inr b)
            \<and> (\<exists>d\<in>set (descendants path (tree s)).
                  perm_writable_self (FilesystemPermissions G) d u (tree s) = Inr False)
            \<longrightarrow> remove G path (Some u) s = (Return (PyBool False), s))"
proof (intro conjI impI)
  assume "verdict [perm_readable (FilesystemPermissions G) path u (tree s),
                   perm_writable_self (FilesystemPermissions G) path u (tree s),
                   perm_writable_all (FilesystemPermissions G) path u (tree s)] = Inr False"
  with assms show "remove G path (Some u) s = (Return (PyBool False), s)"
    by (auto simp: remove_def acquire_then_def unless_denied_def release_return_def
             split: sum.splits if_splits)
next
  let ?P = "FilesystemPermissions G" and ?t = "tree s"
  assume h: "perm_writable_all ?P = spec_writable_all (perm_writable_self ?P) descendants
            \<and> (\<exists>r. perm_readable ?P path u ?t = Inr r)
            \<and> (\<forall>p\<in>set (path # descendants path ?t). \<exists>b. perm_writable_self ?P p u ?t = Inr b)
            \<and> (\<exists>d\<in>set (descendants path ?t). perm_writable_self ?P d u ?t = Inr False)"
  then obtain r b where r: "perm_readable ?P path u ?t = Inr r"
    and b: "perm_writable_self ?P path u ?t = Inr b" by auto
  from h have "verdict (map (\<lambda>p. perm_writable_self ?P p u ?t) (path # descendants path ?t)) = Inr False"
    by (intro verdict_denied) auto
  with h have wa: "perm_writable_all ?P path u ?t = Inr False"
    by (simp add: spec_writable_all_def)
  from assms r b wa show "remove G path (Some u) s = (Return (PyBool False), s)"
    by (simp add: remove_def acquire_then_def unless_denied_def release_return_def)
qed

text \<open>
  The witness: read access denied on \<^verbatim>\<open>/d\<close>; and \<^verbatim>\<open>/d\<close> readable and writable, its
  entry \<^verbatim>\<open>/d/x\<close> writable, its entry \<^verbatim>\<open>/d/y\<close> not.
\<close>

theorem remove_gated_witness:
  "remove (sample_globals [] [(''readable'', ''/d'', ''alice'')]) ''/d'' (Some alice) idle
     = (Return (PyBool False), idle)
   \<and> remove (with_spec_writable_all (sample_globals [] [(''writable_self'', ''/d/y'', ''alice'')])
         sample_descendants) ''/d'' (Some alice) idle
     = (Return (PyBool False), idle)"
proof -
  let ?G1 = "sample_globals [] [(''readable'', ''/d'', ''alice'')]
               :: (trace, int \<rightharpoonup> string, pyobj) globals"
  let ?G2 = "with_spec_writable_all (sample_globals [] [(''writable_self'', ''/d/y'', ''alice'')])
               sample_descendants :: (trace, int \<rightharpoonup> string, pyobj) globals"
  have denied: "verdict [perm_readable (FilesystemPermissions ?G1) ''/d'' alice (tree idle),
                   perm_writable_self (FilesystemPermissions ?G1) ''/d'' alice (tree idle),
                   perm_writable_all (FilesystemPermissions ?G1) ''/d'' alice (tree idle)] = Inr False"
    by (simp add: sample_defs)
  have subtree: "perm_writable_all (FilesystemPermissions ?G2)
              = spec_writable_all (perm_writable_self (FilesystemPermissions ?G2)) sample_descendants
            \<and> (\<exists>r. perm_readable (FilesystemPermissions ?G2) ''/d'' alice (tree idle) = Inr r)
            \<and> (\<forall>p\<in>set (''/d'' # sample_descendants ''/d'' (tree idle)).
                  \<exists>b. perm_writable_self (FilesystemPermissions ?G2) p alice (tree idle) = Inr b)
            \<and> (\<exists>d\<in>set (sample_descendants ''/d'' (tree idle)).
                  perm_writable_self (FilesystemPermissions ?G2) d alice (tree idle) = Inr False)"
    by (auto simp: with_spec_writable_all_def sample_descendants_def sample_defs)
  from remove_gated [OF idle_free, of ?G1 "''/d''" alice] denied
  have "remove ?G1 ''/d'' (Some alice) idle = (Return (PyBool False), idle)"
    by blast
  moreover
  from remove_gated [OF idle_free, of ?G2 "''/d''" alice sample_descendants] subtree
  have "remove ?G2 ''/d'' (Some alice) idle = (Return (PyBool False), idle)"
    by blast
  ultimately show ?thesis
    by simp
qed

section \<open>C6: \<^verbatim>\<open>move\<close>\<close>

text \<open>
  C6: for every source, target and user, \<^verbatim>\<open>move\<close> asks, in this order, for read access
  to the source, \<^verbatim>\<open>writable_all\<close> on the source, \<^verbatim>\<open>writable_self\<close> on the source and
  \<^verbatim>\<open>writable\<close> on the target. Only when all four are granted does it call the tree
  engine's \<^verbatim>\<open>move_with_handle\<close> (and then \<^verbatim>\<open>copy_reown\<close>); when one of them denies, it
  returns \<^verbatim>\<open>False\<close> and the state is as it was.
\<close>

theorem move_gated:
  "\<not> locked s \<Longrightarrow>
   move G source target_parent (Some u) s =
     (case verdict [perm_readable (FilesystemPermissions G) source u (tree s),
                    perm_writable_all (FilesystemPermissions G) source u (tree s),
                    perm_writable_self (FilesystemPermissions G) source u (tree s),
                    perm_writable (FilesystemPermissions G) target_parent u (tree s)] of
        Inl e \<Rightarrow> (Raise e, s\<lparr>locked := True\<rparr>)
      | Inr all_granted \<Rightarrow>
          if all_granted
          then delegate (fs_move_with_handle (Filesystem G) source target_parent)
                 (\<lambda>ret_result. reown (FilesystemPermissions G) ret_result (Some u)
                    (release_return (PyBool (ret_result \<noteq> PyNone)))) (s\<lparr>locked := True\<rparr>)
          else (Return (PyBool False), s))"
  by (simp add: move_def acquire_then_def unless_denied_def release_return_def split: sum.splits)

theorem move_gated_witness:
  "move (sample_globals [] [(''writable'', ''/b'', ''alice'')]) ''/a'' ''/b'' (Some alice) idle
     = (Return (PyBool False), idle)
   \<and> move (sample_globals [] []) ''/a'' ''/b'' (Some alice) idle
     = (Return (PyBool True),
        idle\<lparr>tree := [(''move_with_handle'', [''/a'', ''/b'']), (''copy_reown'', [''alice''])]\<rparr>)"
proof -
  let ?G1 = "sample_globals [] [(''writable'', ''/b'', ''alice'')]
               :: (trace, int \<rightharpoonup> string, pyobj) globals"
  let ?G2 = "sample_globals [] [] :: (trace, int \<rightharpoonup> string, pyobj) globals"
  from move_gated [OF idle_free, of ?G1 "''/a''" "''/b''" alice]
  have "move ?G1 ''/a'' ''/b'' (Some alice) idle = (Return (PyBool False), idle)"
    by (simp add: sample_defs)
  moreover
  from move_gated [OF idle_free, of ?G2 "''/a''" "''/b''" alice]
  have "move ?G2 ''/a'' ''/b'' (Some alice) idle
     = (Return (PyBool True),
        idle\<lparr>tree := [(''move_with_handle'', [''/a'', ''/b'']), (''copy_reown'', [''alice''])]\<rparr>)"
    by (simp add: stmt_defs sample_defs)
  ultimately show ?thesis
    by simp
qed

section \<open>C7: the system caller\<close>

text \<open>
  C7: every function that accepts a user, called with no user, asks no permission probe
  and calls the tree engine unconditionally: the call is the privileged call of the
  specification, which does not have the permission engine as an argument. In
  particular the probes \<^verbatim>\<open>readable\<close>, \<^verbatim>\<open>writable\<close> and \<^verbatim>\<open>writable_self\<close> return \<^verbatim>\<open>True\<close>
  for every path, whether it exists or not.
\<close>

theorem no_user_no_check:
  "(call_user c = Some None \<longrightarrow> facade G c s = privileged (Filesystem G) (file_stream G) c s)
   \<and> (\<not> locked s \<longrightarrow>
        readable G path None s = (Return (PyBool True), s)
      \<and> writable G path None s = (Return (PyBool True), s)
      \<and> writable_self G path None s = (Return (PyBool True), s))"
proof (intro conjI impI)
  assume "call_user c = Some None"
  then show "facade G c s = privileged (Filesystem G) (file_stream G) c s"
    by (cases c; cases s)
       (auto simp: replying_def facade_defs stmt_defs usr_handle_def under_lock_def list_loop_None
             split: prod.splits sum.splits)
qed (simp_all add: facade_defs stmt_defs)

text \<open>
  The witness: a permission engine that denies the user \<^verbatim>\<open>public\<close> everything on
  \<^verbatim>\<open>/d\<close> changes nothing for the system caller.
\<close>

theorem no_user_no_check_witness:
  "facade (sample_globals [] [(''writable'', ''/d'', ''public'')]) (CreateDirectory ''/d'' ''new'' None) idle
     = (Return (Val (PyStr ''new'')), idle\<lparr>tree := [(''create_directory'', [''/d'', ''new'', ''public''])]\<rparr>)
   \<and> readable (sample_globals [] [(''readable'', ''/nowhere'', ''public'')]) ''/nowhere'' None idle
     = (Return (PyBool True), idle)"
proof -
  let ?G1 = "sample_globals [] [(''writable'', ''/d'', ''public'')]
               :: (trace, int \<rightharpoonup> string, pyobj) globals"
  let ?G2 = "sample_globals [] [(''readable'', ''/nowhere'', ''public'')]
               :: (trace, int \<rightharpoonup> string, pyobj) globals"
  let ?c = "CreateDirectory ''/d'' ''new'' None :: pyobj call"
  have system: "call_user ?c = Some None"
    by simp
  from no_user_no_check [of ?c ?G1 idle] system
  have "facade ?G1 ?c idle = privileged (Filesystem ?G1) (file_stream ?G1) ?c idle"
    by blast
  then have "facade ?G1 ?c idle
     = (Return (Val (PyStr ''new'')), idle\<lparr>tree := [(''create_directory'', [''/d'', ''new'', ''public''])]\<rparr>)"
    by (simp add: under_lock_def sample_defs)
  moreover
  from no_user_no_check [of _ ?G2 idle "''/nowhere''"] idle_free
  have "readable ?G2 ''/nowhere'' None idle = (Return (PyBool True), idle)"
    by blast
  ultimately show ?thesis
    by simp
qed

section \<open>C8: \<^verbatim>\<open>list_directory\<close>\<close>




section \<open>C9: \<^verbatim>\<open>get_file_name\<close>\<close>

text \<open>
  C9. The claim: for every slash-delimited path, \<^verbatim>\<open>get_file_name\<close> returns the final
  segment and never fails. On the relative path \<^verbatim>\<open>a/b\<close> the split has no empty
  segment, \<^verbatim>\<open>path.remove('')\<close> raises \<open>ValueError\<close>, and no name is returned.
\<close>

theorem get_file_name_relative_path_raises:
  "get_file_name ''a/b'' = Inl ValueError"
  by (simp add: get_file_name_def list_remove_def)

text \<open>
  On a path that starts with a slash the function does return the last segment of the
  split.
\<close>

lemma last_item_last: "xs \<noteq> [] \<Longrightarrow> last_item xs = Inr (last xs)"
  by (cases xs rule: rev_cases) (simp_all add: last_item_def)

lemma get_file_name_absolute:
  "get_file_name (CHR ''/'' # p) = Inr (last (split_slash (CHR ''/'' # p)))"
  by (simp add: get_file_name_def list_remove_def last_item_last split_slash_not_Nil)

section \<open>C10: the owner given by the system caller\<close>

text \<open>
  C10: when \<^verbatim>\<open>create_file\<close> or \<^verbatim>\<open>create_directory\<close> is called with no user, the owner
  handed to the tree engine is the literal handle \<^verbatim>\<open>public\<close>: the call is the tree
  engine's method on that owner, under the lock.
\<close>

theorem system_caller_owner_public:
  "create_file G path_parent file_name content_stream None
     = under_lock (fs_create_file (Filesystem G) path_parent file_name ''public'' content_stream) (\<lambda>r. r)
   \<and> create_directory G path_parent file_name None
     = under_lock (fs_create_directory (Filesystem G) path_parent file_name ''public'') (\<lambda>r. r)"
  by (auto simp: fun_eq_iff create_file_def create_directory_def stmt_defs under_lock_def usr_handle_def
           split: prod.splits sum.splits)

theorem system_caller_owner_public_witness:
  "create_file (sample_globals [] []) ''/d'' ''f'' PyNone None idle
     = (Return (PyStr ''f''), idle\<lparr>tree := [(''create_file'', [''/d'', ''f'', ''public''])]\<rparr>)
   \<and> create_directory (sample_globals [] []) ''/d'' ''sub'' None idle
     = (Return (PyStr ''sub''), idle\<lparr>tree := [(''create_directory'', [''/d'', ''sub'', ''public''])]\<rparr>)"
  using system_caller_owner_public [of "sample_globals [] []" "''/d''" "''f''" PyNone]
    system_caller_owner_public [of "sample_globals [] []" "''/d''" "''sub''" PyNone]
  by (simp add: under_lock_def sample_defs)

end
